theory Spec2Isabelle
  imports Main
begin

section \<open>Voxa: the values the program handles\<close>

text \<open>
  The Spotify client hands the program decoded JSON: \<open>None\<close>, booleans, numbers,
  strings, lists and dictionaries with string keys. A dictionary is an association list;
  a lookup takes the first binding of a key. Numbers are kept as integers: the program
  only ever subscripts, iterates or tests the truth of a value, and a float behaves like
  an integer under all three.
\<close>

datatype json =
    JNone
  | JBool bool
  | JNum int
  | JStr string
  | JList "json list"
  | JDict "(string \<times> json) list"

text \<open>
  The exceptions that can travel through the program. \<open>KeyError\<close>, \<open>TypeError\<close>
  and \<open>IndexError\<close> come from subscripting; \<open>HTTPError\<close> (with the status code)
  and \<open>RequestException\<close> (any other class of \<open>requests.exceptions\<close>, by name)
  derive from \<open>requests.exceptions.RequestException\<close>; \<open>OtherException\<close> is
  any other class below \<open>Exception\<close>. \<open>KeyboardInterrupt\<close>, \<open>SystemExit\<close>
  and \<open>GeneratorExit\<close> derive from \<open>BaseException\<close> only.
\<close>

datatype py_exn =
    KeyError json
  | TypeError
  | IndexError
  | HTTPError int
  | RequestException string
  | OtherException string
  | KeyboardInterrupt
  | SystemExit
  | GeneratorExit

fun isinstance_Exception :: "py_exn \<Rightarrow> bool" where
  "isinstance_Exception KeyboardInterrupt = False"
| "isinstance_Exception SystemExit = False"
| "isinstance_Exception GeneratorExit = False"
| "isinstance_Exception _ = True"

fun isinstance_RequestException :: "py_exn \<Rightarrow> bool" where
  "isinstance_RequestException (HTTPError _) = True"
| "isinstance_RequestException (RequestException _) = True"
| "isinstance_RequestException _ = False"

text \<open>
  What the program writes: \<open>print\<close> to standard output, \<open>logging.error\<close> to
  \<^verbatim>\<open>voxa.log\<close>, and the Qt signal \<open>voice_detected\<close>. An f-string is kept as
  its pieces: literal text and formatted values.
\<close>

datatype piece = Lit string | Fmt json

datatype effect =
    Print "piece list"
  | LogError string py_exn
  | Emit_voice_detected string

section \<open>Python's operations on decoded JSON\<close>

definition and_then :: "py_exn + 'a \<Rightarrow> ('a \<Rightarrow> py_exn + 'b) \<Rightarrow> py_exn + 'b" where
  "and_then r f = (case r of Inl e \<Rightarrow> Inl e | Inr v \<Rightarrow> f v)"

text \<open>\<open>v[k]\<close> for a string \<open>k\<close>.\<close>

fun subscript :: "json \<Rightarrow> string \<Rightarrow> py_exn + json" where
  "subscript (JDict kvs) k =
     (case map_of kvs k of None \<Rightarrow> Inl (KeyError (JStr k)) | Some v \<Rightarrow> Inr v)"
| "subscript _ k = Inl TypeError"

text \<open>\<open>v[0]\<close>. The keys of a decoded dictionary are strings, so \<open>0\<close> is never one.\<close>

fun index0 :: "json \<Rightarrow> py_exn + json" where
  "index0 (JList xs) = (case xs of [] \<Rightarrow> Inl IndexError | x # _ \<Rightarrow> Inr x)"
| "index0 (JStr s) = (case s of [] \<Rightarrow> Inl IndexError | c # _ \<Rightarrow> Inr (JStr [c]))"
| "index0 (JDict kvs) = Inl (KeyError (JNum 0))"
| "index0 _ = Inl TypeError"

text \<open>\<open>for item in v\<close>: the elements of a list, the keys of a dictionary, the
  characters of a string.\<close>

fun py_iter :: "json \<Rightarrow> py_exn + json list" where
  "py_iter (JList xs) = Inr xs"
| "py_iter (JDict kvs) = Inr (map (\<lambda>kv. JStr (fst kv)) kvs)"
| "py_iter (JStr s) = Inr (map (\<lambda>c. JStr [c]) s)"
| "py_iter _ = Inl TypeError"

fun truthy :: "json \<Rightarrow> bool" where
  "truthy JNone = False"
| "truthy (JBool b) = b"
| "truthy (JNum n) = (n \<noteq> 0)"
| "truthy (JStr s) = (s \<noteq> [])"
| "truthy (JList xs) = (xs \<noteq> [])"
| "truthy (JDict kvs) = (kvs \<noteq> [])"

fun is_substring :: "string \<Rightarrow> string \<Rightarrow> bool" where
  "is_substring sub [] = (sub = [])"
| "is_substring sub (c # cs) = (take (length sub) (c # cs) = sub \<or> is_substring sub cs)"

text \<open>\<open>k in v\<close> for a string \<open>k\<close>.\<close>

fun py_in :: "string \<Rightarrow> json \<Rightarrow> py_exn + bool" where
  "py_in k (JDict kvs) = Inr (k \<in> set (map fst kvs))"
| "py_in k (JList xs) = Inr (JStr k \<in> set xs)"
| "py_in k (JStr s) = Inr (is_substring k s)"
| "py_in k _ = Inl TypeError"

text \<open>Evaluating an expression on every element, stopping at the first exception.\<close>

fun collect :: "('a \<Rightarrow> py_exn + 'b) \<Rightarrow> 'a list \<Rightarrow> py_exn + 'b list" where
  "collect f [] = Inr []"
| "collect f (x # xs) =
     (case f x of
        Inl e \<Rightarrow> Inl e
      | Inr y \<Rightarrow> (case collect f xs of Inl e \<Rightarrow> Inl e | Inr ys \<Rightarrow> Inr (y # ys)))"

section \<open>The world outside the program\<close>

text \<open>
  \<open>requests.get\<close> returns a response or raises. \<open>Response.raise_for_status\<close> of the
  requests library raises \<open>HTTPError\<close> for a status from 400 to 599.
\<close>

record response =
  status_code :: int
  content :: string

definition raise_for_status :: "response \<Rightarrow> py_exn + unit" where
  "raise_for_status r =
     (if 400 \<le> status_code r \<and> status_code r < 600 then Inl (HTTPError (status_code r))
      else Inr ())"

text \<open>
  A \<open>QPixmap\<close> is null or holds an image. \<open>loadFromData\<close> leaves the pixmap null
  when the bytes are not an image it can decode; the decoder is Qt's, a parameter here.
\<close>

datatype qpixmap = Null_pixmap | Image_pixmap string

definition loadFromData :: "(string \<Rightarrow> bool) \<Rightarrow> string \<Rightarrow> qpixmap" where
  "loadFromData decodes data = (if decodes data then Image_pixmap data else Null_pixmap)"

text \<open>
  The environment of one run: \<open>sp.current_user_recently_played(limit=n)\<close>,
  \<open>requests.get(url)\<close> and Qt's image decoder.
\<close>

record env =
  current_user_recently_played :: "nat \<Rightarrow> py_exn + json"
  requests_get :: "json \<Rightarrow> py_exn + response"
  decodes :: "string \<Rightarrow> bool"

section \<open>MusicApp\<close>

text \<open>\<open>item['track']['album']['images'][0]['url']\<close>\<close>

definition album_url :: "json \<Rightarrow> py_exn + json" where
  "album_url item =
     and_then (subscript item ''track'') (\<lambda>track.
     and_then (subscript track ''album'') (\<lambda>album.
     and_then (subscript album ''images'') (\<lambda>images.
     and_then (index0 images) (\<lambda>image.
     subscript image ''url''))))"

text \<open>The body of the \<open>try\<close> in \<open>fetch_albums\<close>.\<close>

definition fetch_albums_try :: "env \<Rightarrow> py_exn + json list" where
  "fetch_albums_try ev =
     and_then (current_user_recently_played ev 5) (\<lambda>results.
     and_then (subscript results ''items'') (\<lambda>items.
     and_then (py_iter items) (collect album_url)))"

text \<open>
  \<open>fetch_albums\<close>: \<open>except Exception\<close> logs and returns the empty list; an exception
  that is not an \<open>Exception\<close> leaves the function (\<open>Inl\<close>).
\<close>

definition fetch_albums :: "env \<Rightarrow> (py_exn + json list) \<times> effect list" where
  "fetch_albums ev =
     (case fetch_albums_try ev of
        Inr urls \<Rightarrow> (Inr urls, [])
      | Inl e \<Rightarrow>
          if isinstance_Exception e then (Inr [], [LogError ''Error fetching albums: '' e])
          else (Inl e, []))"

text \<open>The body of the \<open>try\<close> in \<open>get_pixmap\<close>.\<close>

definition get_pixmap_try :: "env \<Rightarrow> json \<Rightarrow> py_exn + qpixmap" where
  "get_pixmap_try ev url =
     and_then (requests_get ev url) (\<lambda>response.
     and_then (raise_for_status response) (\<lambda>_.
     Inr (loadFromData (decodes ev) (content response))))"

text \<open>
  \<open>get_pixmap\<close>: \<open>except requests.exceptions.RequestException\<close> logs and returns
  \<open>QPixmap()\<close>; any other exception leaves the function.
\<close>

definition get_pixmap :: "env \<Rightarrow> json \<Rightarrow> (py_exn + qpixmap) \<times> effect list" where
  "get_pixmap ev url =
     (case get_pixmap_try ev url of
        Inr pixmap \<Rightarrow> (Inr pixmap, [])
      | Inl e \<Rightarrow>
          if isinstance_RequestException e
          then (Inr Null_pixmap, [LogError ''Error fetching album cover: '' e])
          else (Inl e, []))"

text \<open>
  The body of the \<open>try\<close> in \<open>update_playing_album\<close>, given what
  \<open>sp.current_playback()\<close> did. \<open>and\<close> does not evaluate \<open>'item' in current_track\<close>
  when \<open>current_track\<close> is falsy.
\<close>

definition update_playing_album_try :: "py_exn + json \<Rightarrow> py_exn + effect list" where
  "update_playing_album_try playback =
     and_then playback (\<lambda>current_track.
       if \<not> truthy current_track then Inr []
       else and_then (py_in ''item'' current_track) (\<lambda>has_item.
         if \<not> has_item then Inr []
         else
           and_then (subscript current_track ''item'') (\<lambda>item.
           and_then (subscript item ''name'') (\<lambda>song_name.
           and_then (subscript current_track ''item'') (\<lambda>item'.
           and_then (subscript item' ''artists'') (\<lambda>artists.
           and_then (index0 artists) (\<lambda>artist.
           and_then (subscript artist ''name'') (\<lambda>artist_name.
           Inr [Print [Lit ''Currently playing: '', Fmt song_name,
                       Lit '' by '', Fmt artist_name]]))))))))"

definition update_playing_album :: "py_exn + json \<Rightarrow> (py_exn + unit) \<times> effect list" where
  "update_playing_album playback =
     (case update_playing_album_try playback of
        Inr printed \<Rightarrow> (Inr (), printed)
      | Inl e \<Rightarrow>
          if isinstance_Exception e
          then (Inr (), [LogError ''Error updating playing album: '' e])
          else (Inl e, []))"

definition open_settings :: "effect list" where
  "open_settings = [Print [Lit ''Opening settings...'']]"

definition process_command :: "string \<Rightarrow> effect list" where
  "process_command command = [Print [Lit ''Recognized command: '', Fmt (JStr command)]]"

text \<open>\<open>file_name\<close> is what the file dialog returned, empty when it was cancelled.\<close>

definition import_background :: "string \<Rightarrow> effect list" where
  "import_background file_name =
     (if file_name \<noteq> [] then [Print [Lit ''Background image set to '', Fmt (JStr file_name)]]
      else [])"

section \<open>VoiceRecognitionThread\<close>

definition VoiceRecognitionThread_run :: "effect list" where
  "VoiceRecognitionThread_run = [Print [Lit ''Voice recognition running in background'']]"

text \<open>
  \<open>voice_detected.connect(self.process_command)\<close>: every emission of the signal calls
  \<open>process_command\<close> with the emitted string.
\<close>

fun voice_commands :: "effect list \<Rightarrow> string list" where
  "voice_commands [] = []"
| "voice_commands (Emit_voice_detected command # effs) = command # voice_commands effs"
| "voice_commands (_ # effs) = voice_commands effs"

definition deliver_voice_detected :: "effect list \<Rightarrow> effect list" where
  "deliver_voice_detected effs = concat (map process_command (voice_commands effs))"

section \<open>The songs table and the running program\<close>

text \<open>
  \<^verbatim>\<open>CREATE TABLE IF NOT EXISTS songs (name TEXT, artist TEXT, file_path TEXT)\<close>:
  three columns, no key and no uniqueness constraint, so the table is a list of rows in
  which a row may occur twice. The database file has no such table (\<open>None\<close>) or has one
  with its rows.
\<close>

datatype sql_value = SqlNull | SqlText string | SqlBlob string

record song =
  name :: sql_value
  artist :: sql_value
  file_path :: sql_value

definition create_songs_table :: "song list option \<Rightarrow> song list option" where
  "create_songs_table db = (case db of None \<Rightarrow> Some [] | Some rows \<Rightarrow> Some rows)"

text \<open>
  The state of a run: the songs table, the album covers of the window, everything
  written so far, and the exception that ended the process, if one reached the top.
\<close>

record program =
  songs :: "song list option"
  album_labels :: "qpixmap list"
  out :: "effect list"
  halted :: "py_exn option"

text \<open>The loop over \<open>self.albums\<close> in \<open>MusicApp.__init__\<close>.\<close>

fun load_covers :: "env \<Rightarrow> json list \<Rightarrow> (py_exn + qpixmap list) \<times> effect list" where
  "load_covers ev [] = (Inr [], [])"
| "load_covers ev (url # urls) =
     (case get_pixmap ev url of
        (Inl e, log) \<Rightarrow> (Inl e, log)
      | (Inr pixmap, log) \<Rightarrow>
          (case load_covers ev urls of
             (Inl e, log') \<Rightarrow> (Inl e, log @ log')
           | (Inr pixmaps, log') \<Rightarrow> (Inr (pixmap # pixmaps), log @ log')))"

text \<open>
  The module up to \<open>app.exec_()\<close>, once \<^verbatim>\<open>offline_songs.db\<close> has been opened:
  the table is created, then \<open>MusicApp()\<close> fetches the albums, loads their covers,
  starts the timer and the voice thread. \<open>db\<close> is the songs table of the file as the
  run finds it.
  The thread's line is put where the thread is started; where it lands among the other
  lines is up to the scheduler, and nothing below depends on it.
\<close>

definition startup :: "env \<Rightarrow> song list option \<Rightarrow> program" where
  "startup ev db =
     (case fetch_albums ev of
        (Inl e, log) \<Rightarrow>
          \<lparr>songs = create_songs_table db, album_labels = [], out = log, halted = Some e\<rparr>
      | (Inr albums, log) \<Rightarrow>
          (case load_covers ev albums of
             (Inl e, log') \<Rightarrow>
               \<lparr>songs = create_songs_table db, album_labels = [], out = log @ log',
                halted = Some e\<rparr>
           | (Inr pixmaps, log') \<Rightarrow>
               \<lparr>songs = create_songs_table db, album_labels = pixmaps,
                out = log @ log' @ VoiceRecognitionThread_run
                      @ deliver_voice_detected VoiceRecognitionThread_run,
                halted = None\<rparr>))"

text \<open>
  The module from its first line. \<open>sqlite3.connect\<close> and the \<open>CREATE TABLE\<close>
  of lines 58 to 60 raise when the file is not a database, is locked or cannot be
  written (\<open>Inl\<close>); the program then ends before \<open>MusicApp()\<close> and writes nothing.
\<close>

definition voxa :: "env \<Rightarrow> py_exn + song list option \<Rightarrow> program" where
  "voxa ev opened =
     (case opened of
        Inl e \<Rightarrow> \<lparr>songs = None, album_labels = [], out = [], halted = Some e\<rparr>
      | Inr db \<Rightarrow> startup ev db)"

text \<open>
  What the event loop delivers: the 5-second timer (with what \<open>sp.current_playback()\<close>
  does at that tick), a click on Settings, a click on Import Background (with the file
  chosen). An exception that leaves a handler ends the process.
\<close>

datatype ui_event =
    Timer_timeout "py_exn + json"
  | Settings_clicked
  | Import_background_clicked string

fun handle :: "ui_event \<Rightarrow> program \<Rightarrow> program" where
  "handle (Timer_timeout playback) p =
     (if halted p \<noteq> None then p
      else case update_playing_album playback of
             (Inl e, effs) \<Rightarrow> p\<lparr>out := out p @ effs, halted := Some e\<rparr>
           | (Inr _, effs) \<Rightarrow> p\<lparr>out := out p @ effs\<rparr>)"
| "handle Settings_clicked p =
     (if halted p \<noteq> None then p else p\<lparr>out := out p @ open_settings\<rparr>)"
| "handle (Import_background_clicked file_name) p =
     (if halted p \<noteq> None then p else p\<lparr>out := out p @ import_background file_name\<rparr>)"

fun run :: "ui_event list \<Rightarrow> program \<Rightarrow> program" where
  "run [] p = p"
| "run (e # es) p = run es (handle e p)"

text \<open>The line that \<open>process_command\<close> prints, and no other handler does.\<close>

fun is_recognized_command :: "effect \<Rightarrow> bool" where
  "is_recognized_command (Print (Lit s # _)) = (s = ''Recognized command: '')"
| "is_recognized_command _ = False"

section \<open>Concrete runs\<close>

definition thriller_item :: json where
  "thriller_item =
     JDict [(''track'', JDict [(''album'', JDict [(''images'',
        JList [JDict [(''url'', JStr ''https://i.scdn.co/image/thriller'')]])])])]"

definition bad_item :: json where
  "bad_item =
     JDict [(''track'', JDict [(''album'', JDict [(''images'',
        JList [JDict [(''url'', JStr ''https://i.scdn.co/image/bad'')]])])])]"

definition thriller_playing :: json where
  "thriller_playing =
     JDict [(''item'', JDict [(''name'', JStr ''Thriller''),
        (''artists'', JList [JDict [(''name'', JStr ''Michael Jackson'')]])])]"

text \<open>A PNG file of one pixel (70 bytes: signature, IHDR, IDAT, IEND).\<close>

definition tiny_png :: string where
  "tiny_png =
     [CHR 0x89, CHR 0x50, CHR 0x4E, CHR 0x47, CHR 0x0D, CHR 0x0A, CHR 0x1A, CHR 0x0A,
      CHR 0x00, CHR 0x00, CHR 0x00, CHR 0x0D, CHR 0x49, CHR 0x48, CHR 0x44, CHR 0x52,
      CHR 0x00, CHR 0x00, CHR 0x00, CHR 0x01, CHR 0x00, CHR 0x00, CHR 0x00, CHR 0x01,
      CHR 0x08, CHR 0x06, CHR 0x00, CHR 0x00, CHR 0x00, CHR 0x1F, CHR 0x15, CHR 0xC4,
      CHR 0x89, CHR 0x00, CHR 0x00, CHR 0x00, CHR 0x0D, CHR 0x49, CHR 0x44, CHR 0x41,
      CHR 0x54, CHR 0x78, CHR 0xDA, CHR 0x63, CHR 0x64, CHR 0x60, CHR 0xF8, CHR 0x5F,
      CHR 0x0F, CHR 0x00, CHR 0x02, CHR 0x87, CHR 0x01, CHR 0x80, CHR 0xEB, CHR 0x47,
      CHR 0xBA, CHR 0x92, CHR 0x00, CHR 0x00, CHR 0x00, CHR 0x00, CHR 0x49, CHR 0x45,
      CHR 0x4E, CHR 0x44, CHR 0xAE, CHR 0x42, CHR 0x60, CHR 0x82]"

text \<open>
  A remote that returns the first \<open>n\<close> of two recently played tracks; the image server
  sends the one-pixel PNG, the only data the decoder of these runs accepts.
\<close>

definition env_online :: env where
  "env_online = \<lparr>
     current_user_recently_played =
       (\<lambda>n. Inr (JDict [(''items'', JList (take n [thriller_item, bad_item]))])),
     requests_get = (\<lambda>url. Inr \<lparr>status_code = 200, content = tiny_png\<rparr>),
     decodes = (\<lambda>data. data = tiny_png)\<rparr>"

text \<open>A remote that cannot be reached.\<close>

definition env_offline :: env where
  "env_offline = \<lparr>
     current_user_recently_played = (\<lambda>n. Inl (RequestException ''ConnectionError'')),
     requests_get = (\<lambda>url. Inl (RequestException ''ConnectionError'')),
     decodes = (\<lambda>data. data = tiny_png)\<rparr>"

text \<open>The user presses Ctrl-C while the recently-played query is under way.\<close>

definition env_interrupted :: env where
  "env_interrupted = \<lparr>
     current_user_recently_played = (\<lambda>n. Inl KeyboardInterrupt),
     requests_get = (\<lambda>url. Inl (RequestException ''ConnectionError'')),
     decodes = (\<lambda>data. data = tiny_png)\<rparr>"

text \<open>The user presses Ctrl-C while a cover is being downloaded.\<close>

definition env_cover_interrupted :: env where
  "env_cover_interrupted = \<lparr>
     current_user_recently_played =
       (\<lambda>n. Inr (JDict [(''items'', JList (take n [thriller_item, bad_item]))])),
     requests_get = (\<lambda>url. Inl KeyboardInterrupt),
     decodes = (\<lambda>data. data = tiny_png)\<rparr>"

text \<open>
  The cover URL \<^verbatim>\<open>http://a..b/\<close> has an empty host label: \<open>requests.get\<close>
  lets urllib3's \<open>LocationParseError\<close> through, which is no \<open>RequestException\<close>.
\<close>

definition env_bad_host :: env where
  "env_bad_host = \<lparr>
     current_user_recently_played = (\<lambda>n. Inr (JDict [(''items'', JList [])])),
     requests_get =
       (\<lambda>url. if url = JStr ''http://a..b/'' then Inl (OtherException ''LocationParseError'')
              else Inr \<lparr>status_code = 200, content = tiny_png\<rparr>),
     decodes = (\<lambda>data. data = tiny_png)\<rparr>"

text \<open>A remote whose recently-played query returns \<open>answer\<close>, whatever the limit.\<close>

definition env_answering :: "json \<Rightarrow> env" where
  "env_answering answer = \<lparr>
     current_user_recently_played = (\<lambda>n. Inr answer),
     requests_get = (\<lambda>url. Inl (RequestException ''ConnectionError'')),
     decodes = (\<lambda>data. data = tiny_png)\<rparr>"

text \<open>A recently played local file: its \<open>track\<close> has no album.\<close>

definition local_item :: json where
  "local_item = JDict [(''track'', JDict [(''album'', JNone)])]"

text \<open>The image server answers 200 with a page that is no image.\<close>

definition env_not_an_image :: env where
  "env_not_an_image = \<lparr>
     current_user_recently_played = (\<lambda>n. Inr (JDict [(''items'', JList [])])),
     requests_get = (\<lambda>url. Inr \<lparr>status_code = 200, content = ''<html></html>''\<rparr>),
     decodes = (\<lambda>data. data = tiny_png)\<rparr>"

text \<open>The image server answers 404.\<close>

definition env_not_found :: env where
  "env_not_found = \<lparr>
     current_user_recently_played = (\<lambda>n. Inr (JDict [(''items'', JList [])])),
     requests_get = (\<lambda>url. Inr \<lparr>status_code = 404, content = ''Not Found''\<rparr>),
     decodes = (\<lambda>data. data = tiny_png)\<rparr>"

section \<open>Exceptions raised by subscripting and iteration\<close>

lemma subscript_raises_Exception: "subscript v k = Inl e \<Longrightarrow> isinstance_Exception e"
  by (cases v) (auto split: option.splits)

lemma index0_raises_Exception: "index0 v = Inl e \<Longrightarrow> isinstance_Exception e"
  by (cases v) (auto split: list.splits)

lemma py_iter_raises_Exception: "py_iter v = Inl e \<Longrightarrow> isinstance_Exception e"
  by (cases v) auto

lemma and_then_Inl:
  "and_then r f = Inl e \<Longrightarrow> r = Inl e \<or> (\<exists>v. r = Inr v \<and> f v = Inl e)"
  by (auto simp: and_then_def split: sum.splits)

lemma and_then_Inr:
  "and_then r f = Inr y \<Longrightarrow> \<exists>v. r = Inr v \<and> f v = Inr y"
  by (auto simp: and_then_def split: sum.splits)

lemma album_url_raises_Exception: "album_url item = Inl e \<Longrightarrow> isinstance_Exception e"
  unfolding album_url_def
  by (auto dest!: and_then_Inl dest: subscript_raises_Exception index0_raises_Exception)

lemma collect_Inl:
  "collect f xs = Inl e \<Longrightarrow> \<exists>x \<in> set xs. f x = Inl e"
  by (induction xs) (auto split: sum.splits)

lemma collect_length: "collect f xs = Inr ys \<Longrightarrow> length ys = length xs"
  by (induction xs arbitrary: ys) (auto split: sum.splits)

lemma collect_map_Inr: "map f xs = map Inr ys \<Longrightarrow> collect f xs = Inr ys"
proof (induction xs arbitrary: ys)
  case Nil
  then show ?case by simp
next
  case (Cons x xs)
  then obtain y ys' where "ys = y # ys'" "f x = Inr y" "map f xs = map Inr ys'"
    by (cases ys) auto
  with Cons.IH [of ys'] show ?case
    by simp
qed

lemma collect_first_error:
  "map f pre = map Inr us \<Longrightarrow> f x = Inl e \<Longrightarrow> collect f (pre @ x # post) = Inl e"
proof (induction pre arbitrary: us)
  case Nil
  then show ?case by simp
next
  case (Cons p pre)
  then obtain u us' where "us = u # us'" "f p = Inr u" "map f pre = map Inr us'"
    by (cases us) auto
  with Cons.IH [of us'] Cons.prems(2) show ?case
    by simp
qed

section \<open>MusicApp.fetch_albums\<close>

text \<open>
  An exception of the \<open>try\<close> body is the one the remote query raised, or an
  \<open>Exception\<close> raised while the answer was taken apart.
\<close>

lemma fetch_albums_try_Inl:
  "fetch_albums_try ev = Inl e \<Longrightarrow>
     current_user_recently_played ev 5 = Inl e \<or> isinstance_Exception e"
  unfolding fetch_albums_try_def
  by (auto dest!: and_then_Inl collect_Inl
           dest: subscript_raises_Exception py_iter_raises_Exception album_url_raises_Exception)

lemma fetch_albums_caught:
  "fetch_albums_try ev = Inl e \<Longrightarrow> isinstance_Exception e \<Longrightarrow>
     fetch_albums ev = (Inr [], [LogError ''Error fetching albums: '' e])"
  by (simp add: fetch_albums_def)

text \<open>
  C8, as stated, fails: \<open>except Exception\<close> does not catch \<open>KeyboardInterrupt\<close>.
  When the query is interrupted, \<open>fetch_albums\<close> hands the exception to its caller
  and logs nothing.
\<close>

theorem fetch_albums_KeyboardInterrupt_counterexample:
  "fetch_albums env_interrupted = (Inl KeyboardInterrupt, [])"
  by (simp add: fetch_albums_def fetch_albums_try_def and_then_def env_interrupted_def)

text \<open>
  C8, amended. What \<open>fetch_albums\<close> does, case by case:
  \<^item> the recently-played query (called with \<open>limit=5\<close>) raises: an \<open>Exception\<close> is
    logged and the empty list returned; any other exception (\<open>KeyboardInterrupt\<close>,
    \<open>SystemExit\<close>, \<open>GeneratorExit\<close>) leaves the function and nothing is logged;
  \<^item> the query returns and \<open>results['items']\<close> raises, or iterating over it raises, or
    the URL expression raises on some item after succeeding on all items before it: that
    first error is logged and the empty list returned;
  \<^item> the query returns and the URL expression succeeds on every item: the result is the
    list of these URLs, one for each item and in their order, and nothing is logged. The
    list is as long as the answer's; the function does not cut it to 5;
  \<^item> so whatever leaves \<open>fetch_albums\<close> as an exception is no \<open>Exception\<close>, and was
    raised by the query.
\<close>

theorem fetch_albums_catches_Exception:
  "(\<forall>e. current_user_recently_played ev 5 = Inl e \<longrightarrow>
        fetch_albums ev =
          (if isinstance_Exception e then (Inr [], [LogError ''Error fetching albums: '' e])
           else (Inl e, [])))
   \<and> (\<forall>results e.
        current_user_recently_played ev 5 = Inr results
        \<and> subscript results ''items'' = Inl e \<longrightarrow>
        fetch_albums ev = (Inr [], [LogError ''Error fetching albums: '' e]))
   \<and> (\<forall>results items e.
        current_user_recently_played ev 5 = Inr results
        \<and> subscript results ''items'' = Inr items \<and> py_iter items = Inl e \<longrightarrow>
        fetch_albums ev = (Inr [], [LogError ''Error fetching albums: '' e]))
   \<and> (\<forall>results items before item rest urls e.
        current_user_recently_played ev 5 = Inr results
        \<and> subscript results ''items'' = Inr items
        \<and> py_iter items = Inr (before @ item # rest)
        \<and> map album_url before = map Inr urls \<and> album_url item = Inl e \<longrightarrow>
        fetch_albums ev = (Inr [], [LogError ''Error fetching albums: '' e]))
   \<and> (\<forall>results items its urls.
        current_user_recently_played ev 5 = Inr results
        \<and> subscript results ''items'' = Inr items \<and> py_iter items = Inr its
        \<and> map album_url its = map Inr urls \<longrightarrow>
        fetch_albums ev = (Inr urls, []) \<and> length urls = length its)
   \<and> (\<forall>e. fst (fetch_albums ev) = Inl e \<longrightarrow>
        \<not> isinstance_Exception e \<and> current_user_recently_played ev 5 = Inl e)"
proof -
  have raised: "fetch_albums ev =
          (if isinstance_Exception e then (Inr [], [LogError ''Error fetching albums: '' e])
           else (Inl e, []))"
    if "current_user_recently_played ev 5 = Inl e" for e
    using that by (simp add: fetch_albums_def fetch_albums_try_def and_then_def)
  have no_items: "fetch_albums ev = (Inr [], [LogError ''Error fetching albums: '' e])"
    if "current_user_recently_played ev 5 = Inr results \<and> subscript results ''items'' = Inl e"
    for results e
  proof -
    from that have "fetch_albums_try ev = Inl e"
      by (simp add: fetch_albums_try_def and_then_def)
    moreover from that have "isinstance_Exception e"
      by (auto dest: subscript_raises_Exception)
    ultimately show ?thesis
      by (rule fetch_albums_caught)
  qed
  have no_iter: "fetch_albums ev = (Inr [], [LogError ''Error fetching albums: '' e])"
    if "current_user_recently_played ev 5 = Inr results
        \<and> subscript results ''items'' = Inr items \<and> py_iter items = Inl e"
    for results items e
  proof -
    from that have "fetch_albums_try ev = Inl e"
      by (simp add: fetch_albums_try_def and_then_def)
    moreover from that have "isinstance_Exception e"
      by (auto dest: py_iter_raises_Exception)
    ultimately show ?thesis
      by (rule fetch_albums_caught)
  qed
  have bad_item: "fetch_albums ev = (Inr [], [LogError ''Error fetching albums: '' e])"
    if "current_user_recently_played ev 5 = Inr results
        \<and> subscript results ''items'' = Inr items
        \<and> py_iter items = Inr (before @ item # rest)
        \<and> map album_url before = map Inr urls \<and> album_url item = Inl e"
    for results items before item rest urls e
  proof -
    from that have "collect album_url (before @ item # rest) = Inl e"
      by (auto intro: collect_first_error)
    with that have "fetch_albums_try ev = Inl e"
      by (simp add: fetch_albums_try_def and_then_def)
    moreover from that have "isinstance_Exception e"
      by (auto dest: album_url_raises_Exception)
    ultimately show ?thesis
      by (rule fetch_albums_caught)
  qed
  have all_items: "fetch_albums ev = (Inr urls, []) \<and> length urls = length its"
    if "current_user_recently_played ev 5 = Inr results
        \<and> subscript results ''items'' = Inr items \<and> py_iter items = Inr its
        \<and> map album_url its = map Inr urls"
    for results items its urls
  proof -
    from that have c: "collect album_url its = Inr urls"
      by (auto intro: collect_map_Inr)
    with that have "fetch_albums_try ev = Inr urls"
      by (simp add: fetch_albums_try_def and_then_def)
    then have "fetch_albums ev = (Inr urls, [])"
      by (simp add: fetch_albums_def)
    with c show ?thesis
      by (simp add: collect_length)
  qed
  have leaves: "\<not> isinstance_Exception e \<and> current_user_recently_played ev 5 = Inl e"
    if "fst (fetch_albums ev) = Inl e" for e
  proof -
    from that have "fetch_albums_try ev = Inl e \<and> \<not> isinstance_Exception e"
      by (auto simp: fetch_albums_def split: sum.splits if_splits)
    then show ?thesis
      by (auto dest: fetch_albums_try_Inl)
  qed
  from raised no_items no_iter bad_item all_items leaves show ?thesis
    by blast
qed

text \<open>
  The amended C8 at work, one run for each case: an unreachable remote; an interrupted
  query; an answer that is \<open>None\<close>; an answer whose \<open>items\<close> is \<open>None\<close>; an answer
  whose second item is a local file without album; an answer of two tracks; and an
  answer of six tracks, all six URLs of which are returned.
\<close>

theorem fetch_albums_catches_Exception_witness:
  "fetch_albums env_offline =
       (Inr [], [LogError ''Error fetching albums: '' (RequestException ''ConnectionError'')])
   \<and> fetch_albums env_interrupted = (Inl KeyboardInterrupt, [])
   \<and> fetch_albums (env_answering JNone) =
       (Inr [], [LogError ''Error fetching albums: '' TypeError])
   \<and> fetch_albums (env_answering (JDict [(''items'', JNone)])) =
       (Inr [], [LogError ''Error fetching albums: '' TypeError])
   \<and> fetch_albums (env_answering (JDict [(''items'',
         JList [thriller_item, local_item, bad_item])])) =
       (Inr [], [LogError ''Error fetching albums: '' TypeError])
   \<and> fetch_albums env_online =
       (Inr [JStr ''https://i.scdn.co/image/thriller'', JStr ''https://i.scdn.co/image/bad''],
        [])
   \<and> fetch_albums (env_answering (JDict [(''items'', JList (replicate 6 thriller_item))])) =
       (Inr (replicate 6 (JStr ''https://i.scdn.co/image/thriller'')), [])
   \<and> length (replicate 6 (JStr ''https://i.scdn.co/image/thriller'')) = 6
   \<and> \<not> isinstance_Exception KeyboardInterrupt
   \<and> current_user_recently_played env_interrupted 5 = Inl KeyboardInterrupt"
proof -
  let ?thriller = "JStr ''https://i.scdn.co/image/thriller''"
  let ?bad = "JStr ''https://i.scdn.co/image/bad''"
  have thriller: "album_url thriller_item = Inr ?thriller"
    by (simp add: album_url_def and_then_def thriller_item_def)
  have bad: "album_url bad_item = Inr ?bad"
    by (simp add: album_url_def and_then_def bad_item_def)
  have local: "album_url local_item = Inl TypeError"
    by (simp add: album_url_def and_then_def local_item_def)
  have a: "fetch_albums env_offline =
       (Inr [], [LogError ''Error fetching albums: '' (RequestException ''ConnectionError'')])"
  proof -
    have "current_user_recently_played env_offline 5 = Inl (RequestException ''ConnectionError'')"
      by (simp add: env_offline_def)
    with fetch_albums_catches_Exception [of env_offline] show ?thesis
      by simp
  qed
  have i: "current_user_recently_played env_interrupted 5 = Inl KeyboardInterrupt"
    by (simp add: env_interrupted_def)
  with fetch_albums_catches_Exception [of env_interrupted]
  have b: "fetch_albums env_interrupted = (Inl KeyboardInterrupt, [])"
    by simp
  then have "fst (fetch_albums env_interrupted) = Inl KeyboardInterrupt"
    by simp
  with fetch_albums_catches_Exception [of env_interrupted]
  have b': "\<not> isinstance_Exception KeyboardInterrupt"
    by blast
  have c: "fetch_albums (env_answering JNone) =
       (Inr [], [LogError ''Error fetching albums: '' TypeError])"
  proof -
    have "current_user_recently_played (env_answering JNone) 5 = Inr JNone
        \<and> subscript JNone ''items'' = Inl TypeError"
      by (simp add: env_answering_def)
    with fetch_albums_catches_Exception [of "env_answering JNone"] show ?thesis
      by blast
  qed
  have d: "fetch_albums (env_answering (JDict [(''items'', JNone)])) =
       (Inr [], [LogError ''Error fetching albums: '' TypeError])"
  proof -
    let ?answer = "JDict [(''items'', JNone)]"
    have "current_user_recently_played (env_answering ?answer) 5 = Inr ?answer
        \<and> subscript ?answer ''items'' = Inr JNone \<and> py_iter JNone = Inl TypeError"
      by (simp add: env_answering_def)
    with fetch_albums_catches_Exception [of "env_answering ?answer"] show ?thesis
      by blast
  qed
  have e: "fetch_albums (env_answering (JDict [(''items'',
         JList [thriller_item, local_item, bad_item])])) =
       (Inr [], [LogError ''Error fetching albums: '' TypeError])"
  proof -
    let ?items = "JList [thriller_item, local_item, bad_item]"
    let ?answer = "JDict [(''items'', ?items)]"
    have "current_user_recently_played (env_answering ?answer) 5 = Inr ?answer
        \<and> subscript ?answer ''items'' = Inr ?items
        \<and> py_iter ?items = Inr ([thriller_item] @ local_item # [bad_item])
        \<and> map album_url [thriller_item] = map Inr [?thriller]
        \<and> album_url local_item = Inl TypeError"
      by (simp add: env_answering_def thriller local)
    with fetch_albums_catches_Exception [of "env_answering ?answer"] show ?thesis
      by blast
  qed
  have f: "fetch_albums env_online = (Inr [?thriller, ?bad], [])"
  proof -
    let ?items = "JList [thriller_item, bad_item]"
    let ?answer = "JDict [(''items'', ?items)]"
    have "current_user_recently_played env_online 5 = Inr ?answer
        \<and> subscript ?answer ''items'' = Inr ?items
        \<and> py_iter ?items = Inr [thriller_item, bad_item]
        \<and> map album_url [thriller_item, bad_item] = map Inr [?thriller, ?bad]"
      by (simp add: env_online_def thriller bad)
    with fetch_albums_catches_Exception [of env_online] show ?thesis
      by blast
  qed
  have g: "fetch_albums (env_answering (JDict [(''items'', JList (replicate 6 thriller_item))])) =
       (Inr (replicate 6 ?thriller), [])
       \<and> length (replicate 6 ?thriller) = length (replicate 6 thriller_item)"
  proof -
    let ?items = "JList (replicate 6 thriller_item)"
    let ?answer = "JDict [(''items'', ?items)]"
    have "current_user_recently_played (env_answering ?answer) 5 = Inr ?answer
        \<and> subscript ?answer ''items'' = Inr ?items
        \<and> py_iter ?items = Inr (replicate 6 thriller_item)
        \<and> map album_url (replicate 6 thriller_item) = map Inr (replicate 6 ?thriller)"
      by (simp add: env_answering_def thriller)
    with fetch_albums_catches_Exception [of "env_answering ?answer"] show ?thesis
      by blast
  qed
  from a b b' c d e f g i show ?thesis
    by simp
qed

section \<open>MusicApp.get_pixmap\<close>

text \<open>
  C9, as stated, fails: \<open>get_pixmap\<close> does not return a \<open>QPixmap\<close> for every URL.
  For \<^verbatim>\<open>http://a..b/\<close> the call \<open>requests.get\<close> raises urllib3's
  \<open>LocationParseError\<close>, which \<open>except requests.exceptions.RequestException\<close> does not
  catch: the exception leaves \<open>get_pixmap\<close> and nothing is logged.
\<close>

theorem get_pixmap_bad_host_counterexample:
  "get_pixmap env_bad_host (JStr ''http://a..b/'') =
     (Inl (OtherException ''LocationParseError''), [])"
  by (simp add: get_pixmap_def get_pixmap_try_def and_then_def env_bad_host_def)

text \<open>
  C9, amended. What \<open>get_pixmap\<close> does for a URL, case by case:
  \<^item> \<open>requests.get\<close> raises: a \<open>RequestException\<close> is logged and the null pixmap
    returned; any other exception leaves the function and nothing is logged;
  \<^item> \<open>requests.get\<close> returns a response: a status from 400 to 599 is logged as the
    \<open>HTTPError\<close> of \<open>raise_for_status\<close> and the null pixmap returned; any other
    status gives the pixmap loaded from the content, and nothing is logged;
  \<^item> so whatever leaves \<open>get_pixmap\<close> as an exception is no \<open>RequestException\<close>, and
    was raised by \<open>requests.get\<close>.
\<close>

theorem get_pixmap_contains_RequestException:
  "(\<forall>e. requests_get ev url = Inl e \<longrightarrow>
        get_pixmap ev url =
          (if isinstance_RequestException e
           then (Inr Null_pixmap, [LogError ''Error fetching album cover: '' e])
           else (Inl e, [])))
   \<and> (\<forall>r. requests_get ev url = Inr r \<longrightarrow>
        get_pixmap ev url =
          (if 400 \<le> status_code r \<and> status_code r < 600
           then (Inr Null_pixmap,
                 [LogError ''Error fetching album cover: '' (HTTPError (status_code r))])
           else (Inr (loadFromData (decodes ev) (content r)), [])))
   \<and> (\<forall>e. fst (get_pixmap ev url) = Inl e \<longrightarrow>
        \<not> isinstance_RequestException e \<and> requests_get ev url = Inl e)"
proof -
  have raised: "get_pixmap ev url =
          (if isinstance_RequestException e
           then (Inr Null_pixmap, [LogError ''Error fetching album cover: '' e])
           else (Inl e, []))"
    if "requests_get ev url = Inl e" for e
    using that by (simp add: get_pixmap_def get_pixmap_try_def and_then_def)
  have returned: "get_pixmap ev url =
          (if 400 \<le> status_code r \<and> status_code r < 600
           then (Inr Null_pixmap,
                 [LogError ''Error fetching album cover: '' (HTTPError (status_code r))])
           else (Inr (loadFromData (decodes ev) (content r)), []))"
    if "requests_get ev url = Inr r" for r
    using that
    by (simp add: get_pixmap_def get_pixmap_try_def and_then_def raise_for_status_def)
  have leaves: "\<not> isinstance_RequestException e \<and> requests_get ev url = Inl e"
    if "fst (get_pixmap ev url) = Inl e" for e
  proof -
    from that have t: "get_pixmap_try ev url = Inl e" and n: "\<not> isinstance_RequestException e"
      by (auto simp: get_pixmap_def split: sum.splits if_splits)
    from t n have "requests_get ev url = Inl e"
      by (auto simp: get_pixmap_try_def raise_for_status_def
               dest!: and_then_Inl split: if_splits)
    with n show ?thesis
      by simp
  qed
  from raised returned leaves show ?thesis
    by blast
qed

text \<open>
  The amended C9 at work: a connection error and a 404 both give the null pixmap and one
  log line; a 200 with the one-pixel PNG gives the image; a 200 whose content is no image
  gives the null pixmap without a log line; and the exception that leaves
  \<open>get_pixmap\<close> when the download is interrupted is no \<open>RequestException\<close>.
\<close>

theorem get_pixmap_contains_RequestException_witness:
  "get_pixmap env_offline (JStr ''https://i.scdn.co/image/thriller'') =
       (Inr Null_pixmap,
        [LogError ''Error fetching album cover: '' (RequestException ''ConnectionError'')])
   \<and> get_pixmap env_not_found (JStr ''https://i.scdn.co/image/thriller'') =
       (Inr Null_pixmap, [LogError ''Error fetching album cover: '' (HTTPError 404)])
   \<and> get_pixmap env_online (JStr ''https://i.scdn.co/image/thriller'') =
       (Inr (Image_pixmap tiny_png), [])
   \<and> get_pixmap env_not_an_image (JStr ''https://i.scdn.co/image/thriller'') =
       (Inr Null_pixmap, [])
   \<and> get_pixmap env_cover_interrupted (JStr ''https://i.scdn.co/image/thriller'')
       = (Inl KeyboardInterrupt, [])
   \<and> \<not> isinstance_RequestException KeyboardInterrupt
   \<and> requests_get env_cover_interrupted (JStr ''https://i.scdn.co/image/thriller'')
       = Inl KeyboardInterrupt"
proof -
  let ?url = "JStr ''https://i.scdn.co/image/thriller''"
  have off: "requests_get env_offline ?url = Inl (RequestException ''ConnectionError'')"
    by (simp add: env_offline_def)
  have nf: "requests_get env_not_found ?url = Inr \<lparr>status_code = 404, content = ''Not Found''\<rparr>"
    by (simp add: env_not_found_def)
  have on: "requests_get env_online ?url = Inr \<lparr>status_code = 200, content = tiny_png\<rparr>"
    by (simp add: env_online_def)
  have html: "requests_get env_not_an_image ?url
      = Inr \<lparr>status_code = 200, content = ''<html></html>''\<rparr>"
    by (simp add: env_not_an_image_def)
  have int: "requests_get env_cover_interrupted ?url = Inl KeyboardInterrupt"
    by (simp add: env_cover_interrupted_def)
  from get_pixmap_contains_RequestException [of env_offline ?url] off
  have a: "get_pixmap env_offline ?url =
       (Inr Null_pixmap,
        [LogError ''Error fetching album cover: '' (RequestException ''ConnectionError'')])"
    by simp
  from get_pixmap_contains_RequestException [of env_not_found ?url] nf
  have b: "get_pixmap env_not_found ?url =
       (Inr Null_pixmap, [LogError ''Error fetching album cover: '' (HTTPError 404)])"
    by simp
  from get_pixmap_contains_RequestException [of env_online ?url] on
  have c: "get_pixmap env_online ?url = (Inr (Image_pixmap tiny_png), [])"
    by (simp add: loadFromData_def env_online_def)
  from get_pixmap_contains_RequestException [of env_not_an_image ?url] html
  have d: "get_pixmap env_not_an_image ?url = (Inr Null_pixmap, [])"
    by (simp add: loadFromData_def env_not_an_image_def tiny_png_def)
  from get_pixmap_contains_RequestException [of env_cover_interrupted ?url] int
  have e: "get_pixmap env_cover_interrupted ?url = (Inl KeyboardInterrupt, [])"
    by simp
  then have "fst (get_pixmap env_cover_interrupted ?url) = Inl KeyboardInterrupt"
    by simp
  with get_pixmap_contains_RequestException [of env_cover_interrupted ?url]
  have f: "\<not> isinstance_RequestException KeyboardInterrupt"
    by blast
  from a b c d e f int show ?thesis
    by simp
qed

section \<open>The songs table\<close>

text \<open>
  The program has no cache write and no cache read: its only SQL is the
  \<open>CREATE TABLE\<close> at start-up, and no handler touches the table.
\<close>

lemma songs_handle: "songs (handle e p) = songs p"
  by (cases e) (auto split: prod.splits sum.splits)

lemma songs_run: "songs (run es p) = songs p"
  by (induction es arbitrary: p) (simp_all add: songs_handle)

lemma songs_startup: "songs (startup ev db) = create_songs_table db"
  by (simp add: startup_def split: prod.splits sum.splits)

section \<open>Announcements and the voice thread\<close>

lemma update_playing_album_thriller:
  "update_playing_album (Inr thriller_playing) =
     (Inr (), [Print [Lit ''Currently playing: '', Fmt (JStr ''Thriller''),
                      Lit '' by '', Fmt (JStr ''Michael Jackson'')]])"
  by (simp add: update_playing_album_def update_playing_album_try_def and_then_def
      thriller_playing_def)

lemma fetch_albums_env_online:
  "fetch_albums env_online =
     (Inr [JStr ''https://i.scdn.co/image/thriller'', JStr ''https://i.scdn.co/image/bad''], [])"
  by (simp add: fetch_albums_def fetch_albums_try_def and_then_def env_online_def
      album_url_def thriller_item_def bad_item_def numeral_eq_Suc)

lemma get_pixmap_env_online: "get_pixmap env_online url = (Inr (Image_pixmap tiny_png), [])"
  by (simp add: get_pixmap_def get_pixmap_try_def and_then_def raise_for_status_def
      loadFromData_def env_online_def)

lemma startup_env_online:
  "startup env_online None =
     \<lparr>songs = Some [], album_labels = [Image_pixmap tiny_png, Image_pixmap tiny_png],
      out = [Print [Lit ''Voice recognition running in background'']],
      halted = None\<rparr>"
  by (simp add: startup_def fetch_albums_env_online get_pixmap_env_online
      create_songs_table_def VoiceRecognitionThread_run_def deliver_voice_detected_def)

text \<open>
  C5 against the code. No voice command is given in this run: the program starts, the
  voice thread prints its one line, and the 5-second timer fires while a track started
  elsewhere is playing. \<open>update_playing_album\<close> announces the track all the same.
\<close>

theorem announcement_without_voice_command:
  "out (run [Timer_timeout (Inr thriller_playing)] (startup env_online None)) =
     [Print [Lit ''Voice recognition running in background''],
      Print [Lit ''Currently playing: '', Fmt (JStr ''Thriller''),
             Lit '' by '', Fmt (JStr ''Michael Jackson'')]]"
  by (simp add: startup_env_online update_playing_album_thriller)

lemma fetch_albums_log:
  "fetch_albums ev = (r, log) \<Longrightarrow> filter is_recognized_command log = []"
  by (auto simp: fetch_albums_def split: sum.splits if_splits)

lemma get_pixmap_log:
  "get_pixmap ev url = (r, log) \<Longrightarrow> filter is_recognized_command log = []"
  by (auto simp: get_pixmap_def split: sum.splits if_splits)

lemma load_covers_log:
  "load_covers ev urls = (r, log) \<Longrightarrow> filter is_recognized_command log = []"
proof (induction urls arbitrary: r log)
  case Nil
  then show ?case by simp
next
  case (Cons url urls)
  then show ?case
    by (auto split: prod.splits sum.splits dest: get_pixmap_log)
qed

lemma update_playing_album_try_prints:
  "update_playing_album_try playback = Inr effs \<Longrightarrow> filter is_recognized_command effs = []"
  unfolding update_playing_album_try_def
  by (auto dest!: and_then_Inr split: if_splits)

lemma update_playing_album_effects:
  "update_playing_album playback = (r, effs) \<Longrightarrow> filter is_recognized_command effs = []"
  by (auto simp: update_playing_album_def dest: update_playing_album_try_prints
           split: sum.splits if_splits)

lemma startup_out: "filter is_recognized_command (out (startup ev db)) = []"
  by (auto simp: startup_def VoiceRecognitionThread_run_def deliver_voice_detected_def
           split: prod.splits sum.splits dest: fetch_albums_log load_covers_log)

lemma handle_out:
  "filter is_recognized_command (out p) = [] \<Longrightarrow>
   filter is_recognized_command (out (handle e p)) = []"
  by (cases e)
     (auto simp: open_settings_def import_background_def split: prod.splits sum.splits
           dest: update_playing_album_effects)

lemma run_out:
  "filter is_recognized_command (out p) = [] \<Longrightarrow>
   filter is_recognized_command (out (run es p)) = []"
  by (induction es arbitrary: p) (simp_all add: handle_out)

text \<open>The same holds of a run whose database cannot be opened: it writes nothing.\<close>

lemma voxa_out: "filter is_recognized_command (out (run es (voxa ev opened))) = []"
  by (cases opened) (simp_all add: voxa_def run_out startup_out)

text \<open>
  C10. \<open>VoiceRecognitionThread.run\<close> emits \<open>voice_detected\<close> not once, so the signal
  delivers no command to \<open>process_command\<close>; and in every run of the program, whatever
  the remote answers and whatever the timer and the buttons do, the line that
  \<open>process_command\<close> prints (\<open>Recognized command: ...\<close>) never appears.
\<close>

theorem voice_detected_never_emitted:
  "voice_commands VoiceRecognitionThread_run = []
   \<and> deliver_voice_detected VoiceRecognitionThread_run = []
   \<and> filter is_recognized_command (out (run es (startup ev db))) = []"
  by (simp add: VoiceRecognitionThread_run_def deliver_voice_detected_def run_out startup_out)

end
